theory Spec2Isabelle
  imports Main "HOL-Library.Sublist"
begin

section \<open>Daily Diet API: values, rows and the store\<close>

text \<open>
  The program is one Express application (\<^verbatim>\<open>src/dd.js\<close>) over two SQLite tables reached
  through the Knex query builder. A request body is parsed JSON, so every field the
  handlers destructure from \<^verbatim>\<open>req.body\<close> is a JavaScript value of any type, or
  \<^verbatim>\<open>undefined\<close> when the field is absent. The model covers the scalar values; numbers
  are the integers that the driver binds as integers (the 32-bit range).
\<close>

datatype jsval = JUndefined | JNull | JBool bool | JNum int | JStr string

text \<open>
  \<open>bind\<close> is the value the driver hands to SQLite for a JavaScript value:
  \<^verbatim>\<open>undefined\<close> becomes NULL (the connection sets \<^verbatim>\<open>useNullAsDefault: true\<close>, line 18), a
  boolean becomes the integer 1 or 0. Strings are their UTF-8 bytes.
\<close>

datatype bound = BNull | BInt int | BText string

fun bind :: "jsval \<Rightarrow> bound" where
  "bind JUndefined = BNull"
| "bind JNull = BNull"
| "bind (JBool b) = BInt (if b then 1 else 0)"
| "bind (JNum n) = BInt n"
| "bind (JStr s) = BText s"

text \<open>
  What a table cell holds: NULL, an integer, a double-precision number or a text.
  \<open>Finite m e\<close> is the double \<open>m * 2^e\<close>.
\<close>

datatype double = Finite int int | PlusInfinity | MinusInfinity

datatype sqlval = SNull | SInt int | SReal double | SText string

text \<open>
  SQLite converts a value to the affinity of the column it is stored in or compared
  with. The columns declared \<^verbatim>\<open>string\<close> (\<^verbatim>\<open>name\<close>, \<^verbatim>\<open>email\<close>, \<^verbatim>\<open>description\<close>) have
  TEXT affinity: an integer becomes its decimal text.
\<close>

fun digits :: "nat \<Rightarrow> string" where
  "digits n =
     (if n < 10 then [''0123456789'' ! n]
      else digits (n div 10) @ [''0123456789'' ! (n mod 10)])"

definition decimal :: "int \<Rightarrow> string" where
  "decimal i = (if i < 0 then CHR ''-'' # digits (nat (- i)) else digits (nat i))"

fun text_affinity :: "bound \<Rightarrow> sqlval" where
  "text_affinity BNull = SNull"
| "text_affinity (BInt n) = SText (decimal n)"
| "text_affinity (BText s) = SText s"

text \<open>
  The columns \<^verbatim>\<open>datetime\<close> and \<^verbatim>\<open>on_diet\<close> (declared \<^verbatim>\<open>datetime\<close> and \<^verbatim>\<open>boolean\<close>) have
  NUMERIC affinity: an integer stays as it is, and a text that SQLite reads as a number
  literal is stored as that number, an integer when the number is one, a double
  otherwise; any other text stays text. Which texts are number literals, and which
  number each is, is decided by the engine's floating-point reader; it is the argument
  \<open>num\<close> of the functions below, \<open>None\<close> for a text that is not a number literal.
\<close>

datatype number = NumInt int | NumReal double

type_synonym reading = "string \<Rightarrow> number option"

fun numeric_affinity :: "reading \<Rightarrow> bound \<Rightarrow> sqlval" where
  "numeric_affinity num BNull = SNull"
| "numeric_affinity num (BInt n) = SInt n"
| "numeric_affinity num (BText s) =
     (case num s of
        None \<Rightarrow> SText s
      | Some (NumInt n) \<Rightarrow> SInt n
      | Some (NumReal x) \<Rightarrow> SReal x)"

text \<open>JavaScript truthiness of a value read back from a cell (\<^verbatim>\<open>m.on_diet\<close>, lines 118, 123).\<close>

fun truthy :: "sqlval \<Rightarrow> bool" where
  "truthy SNull = False"
| "truthy (SInt n) = (n \<noteq> 0)"
| "truthy (SReal (Finite m e)) = (m \<noteq> 0)"
| "truthy (SReal PlusInfinity) = True"
| "truthy (SReal MinusInfinity) = True"
| "truthy (SText s) = (s \<noteq> [])"

text \<open>
  The result of \<^verbatim>\<open>bcrypt.hash\<close> is kept symbolic: the salt drawn for it and the key
  material the cipher was set up with. bcrypt appends a zero byte to the secret and reads
  72 bytes of it cyclically, so only \<open>key72\<close> of the secret enters the hash.
  \<^verbatim>\<open>bcrypt.compare\<close> recomputes the hash of the candidate under the stored salt; in the
  symbolic model that is equality of the key material.
\<close>

definition key72 :: "string \<Rightarrow> string" where
  "key72 s = take 72 (concat (replicate 72 (s @ [CHR 0x00])))"

datatype bcrypt_hash = Bcrypt string string

definition bcrypt_hash_of :: "string \<Rightarrow> string \<Rightarrow> bcrypt_hash" where
  "bcrypt_hash_of salt s = Bcrypt salt (key72 s)"

fun bcrypt_compare :: "string \<Rightarrow> bcrypt_hash \<Rightarrow> bool" where
  "bcrypt_compare s (Bcrypt salt key) = (key72 s = key)"

text \<open>The rows of the tables \<^verbatim>\<open>users\<close> (lines 24-29) and \<^verbatim>\<open>meals\<close> (lines 35-42).\<close>

record user_row =
  u_id :: nat
  u_name :: sqlval
  u_email :: sqlval
  u_password :: bcrypt_hash

record meal_row =
  m_id :: nat
  m_name :: sqlval
  m_description :: sqlval
  m_datetime :: sqlval
  m_on_diet :: sqlval
  m_user_id :: nat

text \<open>
  The store: each table is the list of its rows in rowid order, with the counter that
  \<^verbatim>\<open>increments('id')\<close> (an AUTOINCREMENT primary key) keeps of the largest id ever given.
  A query without ORDER BY scans a table in rowid order.
\<close>

record db =
  users :: "user_row list"
  users_seq :: nat
  meals :: "meal_row list"
  meals_seq :: nat

definition empty_db :: db where
  "empty_db = \<lparr>users = [], users_seq = 0, meals = [], meals_seq = 0\<rparr>"

section \<open>Outcomes of a handler\<close>

text \<open>
  A handler either sends a response (a status and a JSON body) or its promise rejects with
  the error a library call raised; no handler catches such an error, so in that case the
  handler itself sends nothing.
\<close>

datatype constraint = NotNull string | Unique string

datatype exn =
    SqliteConstraint constraint
  | KnexUndefinedBinding
  | KnexEmptyUpdate
  | BcryptIllegalArguments
  | JwtSecretMissing

record jwt =
  jwt_id :: nat
  jwt_iat :: nat
  jwt_exp :: "nat option"
  jwt_key :: string

record metrics_body =
  total :: nat
  inside :: nat
  outside :: nat
  bestSequence :: nat

datatype body =
    Message string
  | Error string
  | Token jwt
  | Meal meal_row
  | Meals "meal_row list"
  | Metrics metrics_body

datatype outcome = Responded nat body | Threw exn

fun status_of :: "outcome \<Rightarrow> nat option" where
  "status_of (Responded s b) = Some s"
| "status_of (Threw e) = None"

section \<open>The queries\<close>

text \<open>\<^verbatim>\<open>db('meals').where({ user_id })\<close> (lines 88, 116).\<close>

definition where_user :: "db \<Rightarrow> nat \<Rightarrow> meal_row list" where
  "where_user d userId = filter (\<lambda>m. m_user_id m = userId) (meals d)"

text \<open>
  \<^verbatim>\<open>db('meals').where({ id, user_id })\<close> (lines 94, 103, 110). The route parameter is
  compared with the integer column \<^verbatim>\<open>id\<close>; \<open>mealId\<close> is the integer it denotes.
\<close>

definition owned :: "nat \<Rightarrow> nat \<Rightarrow> meal_row \<Rightarrow> bool" where
  "owned userId mealId m = (m_id m = mealId \<and> m_user_id m = userId)"

definition where_id_user :: "db \<Rightarrow> nat \<Rightarrow> nat \<Rightarrow> meal_row list" where
  "where_id_user d userId mealId = filter (owned userId mealId) (meals d)"

section \<open>Metrics (lines 115-129)\<close>

text \<open>
  The loop of lines 121-126 as a recursion over the rows, carrying \<^verbatim>\<open>bestSeq\<close> and
  \<^verbatim>\<open>current\<close>.
\<close>

fun best_loop :: "meal_row list \<Rightarrow> nat \<Rightarrow> nat \<Rightarrow> nat" where
  "best_loop [] bestSeq current = bestSeq"
| "best_loop (m # ms) bestSeq current =
     (let current' = (if truthy (m_on_diet m) then current + 1 else 0);
          bestSeq' = (if current' > bestSeq then current' else bestSeq)
      in best_loop ms bestSeq' current')"

definition compute_metrics :: "meal_row list \<Rightarrow> metrics_body" where
  "compute_metrics ms =
     (let total = length ms;
          inside = length (filter (\<lambda>m. truthy (m_on_diet m)) ms);
          outside = total - inside
      in \<lparr>total = total, inside = inside, outside = outside,
          bestSequence = best_loop ms 0 0\<rparr>)"

definition get_metrics :: "db \<Rightarrow> nat \<Rightarrow> outcome" where
  "get_metrics d userId = Responded 200 (Metrics (compute_metrics (where_user d userId)))"

text \<open>
  The scan as section 4.4 of the specification words it, over the compliance flags: the
  counter grows by one on a compliant meal and is reset to 0 otherwise, and the best
  value is the maximum of itself and the counter at every step.
\<close>

fun spec_scan :: "bool list \<Rightarrow> nat \<Rightarrow> nat \<Rightarrow> nat" where
  "spec_scan [] bestStreak current = bestStreak"
| "spec_scan (onDiet # flags) bestStreak current =
     spec_scan flags (max bestStreak (if onDiet then current + 1 else 0))
       (if onDiet then current + 1 else 0)"

definition spec_best_streak :: "bool list \<Rightarrow> nat" where
  "spec_best_streak flags = spec_scan flags 0 0"

definition on_diet_flags :: "meal_row list \<Rightarrow> bool list" where
  "on_diet_flags ms = map (\<lambda>m. truthy (m_on_diet m)) ms"

text \<open>A stored meal with a given compliance flag, as a boolean is bound and stored.\<close>

definition flagged :: "bool \<Rightarrow> meal_row" where
  "flagged b = \<lparr>m_id = 0, m_name = SText ''meal'', m_description = SNull,
     m_datetime = SText ''2024-01-01 12:00'', m_on_diet = SInt (if b then 1 else 0),
     m_user_id = 0\<rparr>"

section \<open>Meals (lines 80-112)\<close>

text \<open>
  The fields a meal handler destructures from the request body: \<^verbatim>\<open>name\<close>,
  \<^verbatim>\<open>description\<close>, \<^verbatim>\<open>datetime\<close>, \<^verbatim>\<open>on_diet\<close> (lines 81, 101).
\<close>

record meal_body =
  b_name :: jsval
  b_description :: jsval
  b_datetime :: jsval
  b_on_diet :: jsval

text \<open>
  The columns \<^verbatim>\<open>name\<close>, \<^verbatim>\<open>datetime\<close> and \<^verbatim>\<open>on_diet\<close> are declared
  \<^verbatim>\<open>notNullable\<close> (lines 37, 39, 40); SQLite reports the first such column, in column
  order, that would hold NULL.
\<close>

definition meals_not_null :: "meal_row \<Rightarrow> constraint option" where
  "meals_not_null m =
     (if m_name m = SNull then Some (NotNull ''meals.name'')
      else if m_datetime m = SNull then Some (NotNull ''meals.datetime'')
      else if m_on_diet m = SNull then Some (NotNull ''meals.on_diet'')
      else None)"

text \<open>
  The id an AUTOINCREMENT key gives a new row: one more than the largest of the counter
  and the ids in the table.
\<close>

definition next_id :: "nat \<Rightarrow> nat list \<Rightarrow> nat" where
  "next_id seq ids = Suc (fold max ids seq)"

text \<open>\<^verbatim>\<open>db('meals').insert(row)\<close>: the \<open>m_id\<close> of the argument is not read.\<close>

definition insert_meal :: "db \<Rightarrow> meal_row \<Rightarrow> exn + db" where
  "insert_meal d row =
     (case meals_not_null row of
        Some c \<Rightarrow> Inl (SqliteConstraint c)
      | None \<Rightarrow>
          (let i = next_id (meals_seq d) (map m_id (meals d))
           in Inr (d\<lparr>meals := meals d @ [row\<lparr>m_id := i\<rparr>], meals_seq := i\<rparr>)))"

text \<open>
  POST /meals, lines 80-84, for the authenticated \<^verbatim>\<open>req.userId\<close>: each field is bound and
  stored under the affinity of its column.
\<close>

definition post_meals :: "reading \<Rightarrow> db \<Rightarrow> nat \<Rightarrow> meal_body \<Rightarrow> outcome \<times> db" where
  "post_meals num d userId b =
     (case insert_meal d \<lparr>m_id = 0, m_name = text_affinity (bind (b_name b)),
             m_description = text_affinity (bind (b_description b)),
             m_datetime = numeric_affinity num (bind (b_datetime b)),
             m_on_diet = numeric_affinity num (bind (b_on_diet b)), m_user_id = userId\<rparr> of
        Inl e \<Rightarrow> (Threw e, d)
      | Inr d' \<Rightarrow> (Responded 201 (Message ''Meal added''), d'))"

text \<open>GET /meals, lines 87-90.\<close>

definition get_meals :: "db \<Rightarrow> nat \<Rightarrow> outcome" where
  "get_meals d userId = Responded 200 (Meals (where_user d userId))"

text \<open>GET /meals/:id, lines 93-97: \<^verbatim>\<open>.first()\<close> is the first matching row, if any.\<close>

definition get_meal :: "db \<Rightarrow> nat \<Rightarrow> nat \<Rightarrow> outcome" where
  "get_meal d userId mealId =
     (case where_id_user d userId mealId of
        [] \<Rightarrow> Responded 404 (Error ''Meal not found'')
      | meal # rest \<Rightarrow> Responded 200 (Meal meal))"

text \<open>
  \<^verbatim>\<open>.update({ name, description, datetime, on_diet })\<close>: Knex leaves a key whose value is
  \<^verbatim>\<open>undefined\<close> out of the SET list, and raises when nothing is left. SQLite stores each
  new value under the affinity of its column, checks the NOT NULL columns of each row it
  rewrites, and a failing statement changes nothing.
\<close>

definition set_col :: "(bound \<Rightarrow> sqlval) \<Rightarrow> jsval \<Rightarrow> sqlval \<Rightarrow> sqlval" where
  "set_col affinity v old = (if v = JUndefined then old else affinity (bind v))"

definition update_row :: "reading \<Rightarrow> meal_body \<Rightarrow> meal_row \<Rightarrow> meal_row" where
  "update_row num b m =
     m\<lparr>m_name := set_col text_affinity (b_name b) (m_name m),
       m_description := set_col text_affinity (b_description b) (m_description m),
       m_datetime := set_col (numeric_affinity num) (b_datetime b) (m_datetime m),
       m_on_diet := set_col (numeric_affinity num) (b_on_diet b) (m_on_diet m)\<rparr>"

definition nothing_to_set :: "meal_body \<Rightarrow> bool" where
  "nothing_to_set b =
     (b_name b = JUndefined \<and> b_description b = JUndefined
      \<and> b_datetime b = JUndefined \<and> b_on_diet b = JUndefined)"

definition update_meals ::
  "reading \<Rightarrow> db \<Rightarrow> (meal_row \<Rightarrow> bool) \<Rightarrow> meal_body \<Rightarrow> exn + db" where
  "update_meals num d P b =
     (if nothing_to_set b then Inl KnexEmptyUpdate
      else
        (case List.map_filter (\<lambda>m. meals_not_null (update_row num b m)) (filter P (meals d)) of
           c # cs \<Rightarrow> Inl (SqliteConstraint c)
         | [] \<Rightarrow> Inr (d\<lparr>meals := map (\<lambda>m. if P m then update_row num b m else m) (meals d)\<rparr>)))"

text \<open>PUT /meals/:id, lines 100-106.\<close>

definition put_meal :: "reading \<Rightarrow> db \<Rightarrow> nat \<Rightarrow> nat \<Rightarrow> meal_body \<Rightarrow> outcome \<times> db" where
  "put_meal num d userId mealId b =
     (case update_meals num d (owned userId mealId) b of
        Inl e \<Rightarrow> (Threw e, d)
      | Inr d' \<Rightarrow> (Responded 200 (Message ''Meal updated''), d'))"

text \<open>DELETE /meals/:id, lines 109-112.\<close>

definition del_meals :: "db \<Rightarrow> (meal_row \<Rightarrow> bool) \<Rightarrow> db" where
  "del_meals d P = d\<lparr>meals := filter (\<lambda>m. \<not> P m) (meals d)\<rparr>"

definition delete_meal :: "db \<Rightarrow> nat \<Rightarrow> nat \<Rightarrow> outcome \<times> db" where
  "delete_meal d userId mealId =
     (Responded 200 (Message ''Meal deleted''), del_meals d (owned userId mealId))"

text \<open>Ids grow along the table: rowid order is insertion order.\<close>

definition ids_increasing :: "db \<Rightarrow> bool" where
  "ids_increasing d = sorted_wrt (<) (map m_id (meals d))"

text \<open>Sample requests and stores for the concrete instances below.\<close>

definition salad :: meal_body where
  "salad = \<lparr>b_name = JStr ''salad'', b_description = JUndefined,
     b_datetime = JStr ''2024-01-01 12:00'', b_on_diet = JBool True\<rparr>"

definition cake :: meal_body where
  "cake = \<lparr>b_name = JStr ''cake'', b_description = JStr ''birthday'',
     b_datetime = JStr ''2024-01-02 16:00'', b_on_diet = JBool False\<rparr>"



text \<open>
  The store after identity 1 posted \<open>salad\<close>, identity 2 \<open>cake\<close> and identity 1 \<open>cake\<close>.
\<close>

definition two_owners :: db where
  "two_owners = \<lparr>users = [], users_seq = 0,
     meals =
       [\<lparr>m_id = 1, m_name = SText ''salad'', m_description = SNull,
          m_datetime = SText ''2024-01-01 12:00'', m_on_diet = SInt 1, m_user_id = 1\<rparr>,
        \<lparr>m_id = 2, m_name = SText ''cake'', m_description = SText ''birthday'',
          m_datetime = SText ''2024-01-02 16:00'', m_on_diet = SInt 0, m_user_id = 2\<rparr>,
        \<lparr>m_id = 3, m_name = SText ''cake'', m_description = SText ''birthday'',
          m_datetime = SText ''2024-01-02 16:00'', m_on_diet = SInt 0, m_user_id = 1\<rparr>],
     meals_seq = 3\<rparr>"

section \<open>Session tokens (lines 47-56, 75)\<close>

text \<open>
  A signed token is kept symbolic: its payload and the key it was signed with. The clock
  is \<^verbatim>\<open>Date.now()\<close>, in milliseconds; the library counts in whole seconds. A secret that
  is unset or empty is the empty string.

  \<^verbatim>\<open>jwt.sign({ id }, secret, { expiresIn: '1d' })\<close> stamps \<^verbatim>\<open>iat\<close> with the current second
  and \<^verbatim>\<open>exp\<close> with 86400 seconds more, and refuses to sign without a secret.
\<close>

definition jwt_sign :: "nat \<Rightarrow> string \<Rightarrow> nat \<Rightarrow> exn + jwt" where
  "jwt_sign userId secret now =
     (if secret = [] then Inl JwtSecretMissing
      else Inr \<lparr>jwt_id = userId, jwt_iat = now div 1000,
                jwt_exp = Some (now div 1000 + 86400), jwt_key = secret\<rparr>)"

text \<open>
  The pieces of the Authorization header that \<^verbatim>\<open>authHeader.split(' ')\<close> yields: a piece is
  the compact form of a token or some other text.
\<close>

datatype segment = Opaque string | Compact jwt

datatype verify_error =
    JwtMustBeProvided
  | JwtMalformed
  | SecretMustBeProvided
  | InvalidSignature
  | TokenExpired

text \<open>
  \<^verbatim>\<open>jwt.verify(token, secret, callback)\<close>: the token must be there and well formed, the
  secret must be there, the signature must be the secret's, and a token that carries
  \<^verbatim>\<open>exp\<close> is expired from that second on.
\<close>

definition jwt_verify :: "segment option \<Rightarrow> string \<Rightarrow> nat \<Rightarrow> verify_error + jwt" where
  "jwt_verify token secret now =
     (case token of
        None \<Rightarrow> Inl JwtMustBeProvided
      | Some (Opaque s) \<Rightarrow> Inl (if s = [] then JwtMustBeProvided else JwtMalformed)
      | Some (Compact t) \<Rightarrow>
          if secret = [] then Inl SecretMustBeProvided
          else if jwt_key t \<noteq> secret then Inl InvalidSignature
          else (case jwt_exp t of
                  Some e \<Rightarrow> if now div 1000 \<ge> e then Inl TokenExpired else Inr t
                | None \<Rightarrow> Inr t))"

text \<open>
  The middleware \<^verbatim>\<open>authenticate\<close>: the answer it sends itself, or the \<^verbatim>\<open>req.userId\<close> it
  passes on. \<open>[]\<close> is a request with no Authorization header, or an empty one.
\<close>

definition second_piece :: "segment list \<Rightarrow> segment option" where
  "second_piece authHeader = (case authHeader of a # token # rest \<Rightarrow> Some token | _ \<Rightarrow> None)"

definition authenticate :: "string \<Rightarrow> nat \<Rightarrow> segment list \<Rightarrow> outcome + nat" where
  "authenticate secret now authHeader =
     (if authHeader = [] then Inl (Responded 401 (Error ''Token required''))
      else
        (case jwt_verify (second_piece authHeader) secret now of
           Inl err \<Rightarrow> Inl (Responded 401 (Error ''Invalid token''))
         | Inr decoded \<Rightarrow> Inr (jwt_id decoded)))"

definition sample_token :: jwt where
  "sample_token = \<lparr>jwt_id = 1, jwt_iat = 5, jwt_exp = Some 86405, jwt_key = ''key''\<rparr>"

section \<open>Users and login (lines 61-77)\<close>














section \<open>Properties of the conversions\<close>




lemma decimal_examples:
  "decimal 7 = ''7'' \<and> decimal 123 = ''123'' \<and> decimal 0 = ''0'' \<and> decimal (- 45) = ''-45''"
  by (simp add: decimal_def)

lemma text_affinity_number: "text_affinity (bind (JNum 123)) = text_affinity (bind (JStr ''123''))"
  by (simp add: decimal_def)

lemma flagged_stored: "m_on_diet (flagged b) = numeric_affinity num (bind (JBool b))"
  by (simp add: flagged_def)

lemma replicate_72: "replicate 72 y = y # replicate 71 y"
  by (simp add: numeral_eq_Suc)

lemma key72_long: "72 \<le> length s \<Longrightarrow> key72 (s @ t) = take 72 s"
  by (simp add: key72_def replicate_72)

lemma bcrypt_compare_same: "bcrypt_compare s (bcrypt_hash_of salt s)"
  by (simp add: bcrypt_hash_of_def)

lemma bcrypt_compare_long:
  "72 \<le> length s \<Longrightarrow> bcrypt_compare (s @ t) (bcrypt_hash_of salt (s @ t'))"
  by (simp add: bcrypt_hash_of_def key72_long)


section \<open>Properties of the metrics\<close>

lemma best_loop_spec_scan:
  "best_loop ms b c = spec_scan (on_diet_flags ms) b c"
  by (induction ms arbitrary: b c) (auto simp: on_diet_flags_def Let_def max_def)

lemma inside_count_flags:
  "length (filter (\<lambda>m. truthy (m_on_diet m)) ms) = length (filter id (on_diet_flags ms))"
  by (induction ms) (auto simp: on_diet_flags_def)

text \<open>
  C3. For every sequence of meals, the metrics are: total the length of the sequence,
  inside the number of meals whose \<^verbatim>\<open>on_diet\<close> is truthy (a stored boolean that is
  true), outside the difference (which with inside adds up to total), and bestSequence
  the result of the specification's left-to-right scan over those flags, 0 on the empty
  sequence; the metrics handler computes them from the requester's meals. On the flags
  true, true, false, true, true, true, false the result is 7, 5, 2, 3.
\<close>

theorem C3_metrics:
  "total (compute_metrics ms) = length ms
   \<and> inside (compute_metrics ms) = length (filter id (on_diet_flags ms))
   \<and> outside (compute_metrics ms) = total (compute_metrics ms) - inside (compute_metrics ms)
   \<and> inside (compute_metrics ms) + outside (compute_metrics ms) = total (compute_metrics ms)
   \<and> bestSequence (compute_metrics ms) = spec_best_streak (on_diet_flags ms)
   \<and> bestSequence (compute_metrics []) = 0
   \<and> get_metrics d userId = Responded 200 (Metrics (compute_metrics (where_user d userId)))
   \<and> compute_metrics (map flagged [True, True, False, True, True, True, False])
       = \<lparr>total = 7, inside = 5, outside = 2, bestSequence = 3\<rparr>"
proof -
  have ex: "compute_metrics (map flagged [True, True, False, True, True, True, False])
       = \<lparr>total = 7, inside = 5, outside = 2, bestSequence = 3\<rparr>"
    by (simp add: compute_metrics_def flagged_def Let_def)
  have best: "bestSequence (compute_metrics ms) = spec_best_streak (on_diet_flags ms)"
    by (simp add: compute_metrics_def Let_def best_loop_spec_scan spec_best_streak_def)
  have ins: "inside (compute_metrics ms) = length (filter id (on_diet_flags ms))"
    by (simp add: compute_metrics_def Let_def inside_count_flags)
  have rest: "total (compute_metrics ms) = length ms
     \<and> outside (compute_metrics ms) = total (compute_metrics ms) - inside (compute_metrics ms)
     \<and> inside (compute_metrics ms) + outside (compute_metrics ms) = total (compute_metrics ms)
     \<and> bestSequence (compute_metrics []) = 0"
    by (simp add: compute_metrics_def Let_def)
  show ?thesis
    using ex best ins rest by (simp add: get_metrics_def)
qed

section \<open>Reading one meal\<close>

lemma where_id_user_Nil:
  "where_id_user d userId mealId = [] \<longleftrightarrow> (\<forall>m\<in>set (meals d). \<not> owned userId mealId m)"
  by (auto simp: where_id_user_def filter_empty_conv)

lemma where_id_user_hd:
  "where_id_user d userId mealId = m # rest \<Longrightarrow> m \<in> set (meals d) \<and> owned userId mealId m"
  by (metis where_id_user_def filter_eq_ConsD in_set_conv_decomp)

lemma distinct_map_hd: "distinct (map f (a # ms)) \<Longrightarrow> \<forall>x\<in>set ms. f x \<noteq> f a"
  by (auto simp: image_iff)

lemma filter_unique_id:
  "distinct (map m_id ms) \<Longrightarrow> m \<in> set ms \<Longrightarrow> owned userId (m_id m) m
   \<Longrightarrow> filter (owned userId (m_id m)) ms = [m]"
proof (induction ms)
  case Nil
  then show ?case by simp
next
  case (Cons a ms)
  show ?case
  proof (cases "a = m")
    case True
    have "\<forall>x\<in>set ms. m_id x \<noteq> m_id m"
      using distinct_map_hd [OF Cons.prems(1)] True by simp
    then have "filter (owned userId (m_id m)) ms = []"
      by (auto simp: filter_empty_conv owned_def)
    with True Cons.prems(3) show ?thesis by simp
  next
    case False
    with Cons.prems have in_ms: "m \<in> set ms" by simp
    with distinct_map_hd [OF Cons.prems(1)] have "m_id a \<noteq> m_id m" by metis
    then have "\<not> owned userId (m_id m) a" by (simp add: owned_def)
    moreover have "filter (owned userId (m_id m)) ms = [m]"
      using Cons.IH Cons.prems in_ms by simp
    ultimately show ?thesis by simp
  qed
qed

lemma get_meal_not_found:
  "(\<forall>m\<in>set (meals d). \<not> owned userId mealId m)
   \<Longrightarrow> get_meal d userId mealId = Responded 404 (Error ''Meal not found'')"
  using where_id_user_Nil [of d userId mealId] by (simp add: get_meal_def)

lemma get_meal_found:
  "get_meal d userId mealId = Responded 200 (Meal m)
   \<Longrightarrow> m \<in> set (meals d) \<and> owned userId mealId m"
  by (cases "where_id_user d userId mealId")
     (auto simp: get_meal_def dest: where_id_user_hd)

lemma get_meal_unique:
  assumes "distinct (map m_id (meals d))" "m \<in> set (meals d)" "owned userId mealId m"
  shows "get_meal d userId mealId = Responded 200 (Meal m)"
proof -
  have "mealId = m_id m" using assms(3) by (simp add: owned_def)
  then show ?thesis
    using filter_unique_id [OF assms(1,2)] assms(3)
    by (simp add: get_meal_def where_id_user_def)
qed

text \<open>
  C1. For a requester A and a meal id, GET /meals/:id answers 404 "Meal not found" when
  no meal has that id and when every meal with that id belongs to someone else, with the
  same status and body in both cases (so a store where the id is absent and one where it
  is foreign give equal answers); it answers 200 with a meal only for a stored meal with
  that id whose \<open>user_id\<close> is A, and (ids being unique) it then returns that meal.
\<close>

theorem C1_get_meal:
  "((\<forall>m\<in>set (meals d). m_id m \<noteq> mealId)
      \<longrightarrow> get_meal d A mealId = Responded 404 (Error ''Meal not found''))
   \<and> ((\<forall>m\<in>set (meals d). m_id m = mealId \<longrightarrow> m_user_id m \<noteq> A)
      \<longrightarrow> get_meal d A mealId = Responded 404 (Error ''Meal not found''))
   \<and> (get_meal d A mealId = Responded 200 (Meal m)
      \<longrightarrow> m \<in> set (meals d) \<and> m_id m = mealId \<and> m_user_id m = A)
   \<and> (distinct (map m_id (meals d)) \<and> m \<in> set (meals d) \<and> m_id m = mealId \<and> m_user_id m = A
      \<longrightarrow> get_meal d A mealId = Responded 200 (Meal m))
   \<and> (status_of (get_meal d A mealId) = Some 200
      \<longleftrightarrow> (\<exists>x\<in>set (meals d). m_id x = mealId \<and> m_user_id x = A))
   \<and> ((\<forall>m\<in>set (meals d). m_id m \<noteq> mealId)
        \<and> (\<forall>m\<in>set (meals d'). m_id m = mealId \<longrightarrow> m_user_id m \<noteq> A)
      \<longrightarrow> get_meal d A mealId = get_meal d' A mealId)"
proof -
  have absent: "(\<forall>m\<in>set (meals d). m_id m \<noteq> mealId)
      \<longrightarrow> get_meal d A mealId = Responded 404 (Error ''Meal not found'')"
    using get_meal_not_found [of d A mealId] by (simp add: owned_def)
  have foreign: "(\<forall>m\<in>set (meals d). m_id m = mealId \<longrightarrow> m_user_id m \<noteq> A)
      \<longrightarrow> get_meal d A mealId = Responded 404 (Error ''Meal not found'')"
    using get_meal_not_found [of d A mealId] by (simp add: owned_def)
  have sound: "get_meal d A mealId = Responded 200 (Meal m)
      \<longrightarrow> m \<in> set (meals d) \<and> m_id m = mealId \<and> m_user_id m = A"
    using get_meal_found [of d A mealId m] by (simp add: owned_def)
  have complete: "distinct (map m_id (meals d)) \<and> m \<in> set (meals d) \<and> m_id m = mealId
      \<and> m_user_id m = A \<longrightarrow> get_meal d A mealId = Responded 200 (Meal m)"
    using get_meal_unique [of d m A mealId] by (simp add: owned_def)
  have iff: "status_of (get_meal d A mealId) = Some 200
      \<longleftrightarrow> (\<exists>x\<in>set (meals d). m_id x = mealId \<and> m_user_id x = A)"
  proof (cases "where_id_user d A mealId")
    case Nil
    then show ?thesis
      using where_id_user_Nil [of d A mealId] by (auto simp: get_meal_def owned_def)
  next
    case (Cons a rest)
    then show ?thesis
      using where_id_user_hd [of d A mealId a rest] by (auto simp: get_meal_def owned_def)
  qed
  have same: "(\<forall>m\<in>set (meals d). m_id m \<noteq> mealId)
        \<and> (\<forall>m\<in>set (meals d'). m_id m = mealId \<longrightarrow> m_user_id m \<noteq> A)
      \<longrightarrow> get_meal d A mealId = get_meal d' A mealId"
    using get_meal_not_found [of d A mealId] get_meal_not_found [of d' A mealId]
    by (simp add: owned_def)
  show ?thesis using absent foreign sound complete iff same by blast
qed

text \<open>C1 at the store \<open>two_owners\<close>: an absent id, a foreign meal, and the owner's own meal.\<close>

theorem C1_get_meal_witness:
  "get_meal two_owners 1 7 = Responded 404 (Error ''Meal not found'')
   \<and> get_meal two_owners 1 2 = Responded 404 (Error ''Meal not found'')
   \<and> get_meal two_owners 2 2 = Responded 200 (Meal (meals two_owners ! 1))
   \<and> m_user_id (meals two_owners ! 1) = 2"
  using C1_get_meal [of two_owners 7 1 "meals two_owners ! 1" two_owners]
        C1_get_meal [of two_owners 2 1 "meals two_owners ! 1" two_owners]
        C1_get_meal [of two_owners 2 2 "meals two_owners ! 1" two_owners]
  by (simp add: two_owners_def)

section \<open>Listing meals\<close>

lemma fold_max_ge: "(seq::nat) \<le> fold max ids seq \<and> (\<forall>i\<in>set ids. i \<le> fold max ids seq)"
proof (induction ids arbitrary: seq)
  case Nil
  then show ?case by simp
next
  case (Cons a ids)
  have "max a seq \<le> fold max ids (max a seq)"
    and "\<forall>i\<in>set ids. i \<le> fold max ids (max a seq)"
    using Cons.IH [of "max a seq"] by simp_all
  then show ?case by auto
qed

lemma next_id_fresh: "\<forall>i\<in>set ids. i < next_id seq ids"
  using fold_max_ge [of seq ids] by (auto simp: next_id_def)

lemma ids_increasing_empty: "ids_increasing empty_db"
  by (simp add: ids_increasing_def empty_db_def)

lemma insert_meal_appends:
  "insert_meal d row = Inr d'
   \<Longrightarrow> meals d' = meals d @ [row\<lparr>m_id := next_id (meals_seq d) (map m_id (meals d))\<rparr>]
       \<and> users d' = users d \<and> users_seq d' = users_seq d"
  by (auto simp: insert_meal_def Let_def split: option.splits)

lemma post_meals_ids_increasing:
  assumes "ids_increasing d"
  shows "ids_increasing (snd (post_meals num d userId b))"
proof (cases "insert_meal d \<lparr>m_id = 0, m_name = text_affinity (bind (b_name b)),
             m_description = text_affinity (bind (b_description b)),
             m_datetime = numeric_affinity num (bind (b_datetime b)),
             m_on_diet = numeric_affinity num (bind (b_on_diet b)), m_user_id = userId\<rparr>")
  case (Inl e)
  then show ?thesis using assms by (simp add: post_meals_def)
next
  case (Inr d')
  have "\<forall>i\<in>set (map m_id (meals d)). i < next_id (meals_seq d) (map m_id (meals d))"
    by (rule next_id_fresh)
  then have "sorted_wrt (<) (map m_id (meals d')) "
    using insert_meal_appends [OF Inr] assms
    by (simp add: ids_increasing_def sorted_wrt_append)
  then show ?thesis using Inr by (simp add: post_meals_def ids_increasing_def)
qed

lemma update_row_keeps: "m_id (update_row num b m) = m_id m \<and> m_user_id (update_row num b m) = m_user_id m"
  by (simp add: update_row_def)

lemma update_meals_ids:
  "update_meals num d P b = Inr d' \<Longrightarrow> map m_id (meals d') = map m_id (meals d)"
  by (auto simp: update_meals_def update_row_keeps split: if_splits list.splits)

lemma put_meal_ids_increasing:
  assumes "ids_increasing d"
  shows "ids_increasing (snd (put_meal num d userId mealId b))"
proof (cases "update_meals num d (owned userId mealId) b")
  case (Inl e)
  then show ?thesis using assms by (simp add: put_meal_def)
next
  case (Inr d')
  then show ?thesis
    using assms update_meals_ids [OF Inr] by (simp add: put_meal_def ids_increasing_def)
qed

lemma delete_meal_ids_increasing:
  "ids_increasing d \<Longrightarrow> ids_increasing (snd (delete_meal d userId mealId))"
  by (simp add: delete_meal_def del_meals_def ids_increasing_def sorted_wrt_map sorted_wrt_filter)

lemma ids_increasing_distinct: "ids_increasing d \<Longrightarrow> distinct (map m_id (meals d))"
  by (simp add: ids_increasing_def strict_sorted_iff)

text \<open>
  The sample store is what the handlers make of the three requests, under a reading for
  which the two timestamps are not number literals.
\<close>

lemma two_owners_built:
  assumes "num ''2024-01-01 12:00'' = None" "num ''2024-01-02 16:00'' = None"
  shows "snd (post_meals num (snd (post_meals num (snd (post_meals num empty_db 1 salad)) 2 cake))
           1 cake) = two_owners"
  using assms
  by (simp add: post_meals_def insert_meal_def meals_not_null_def next_id_def salad_def
      cake_def empty_db_def two_owners_def)

text \<open>
  C2. GET /meals answers with exactly the stored meals whose \<open>user_id\<close> is the requester:
  each of them and no other, in the order of the table, which is the order of insertion
  (increasing ids) and the sequence the metrics are computed from.
\<close>

theorem C2_get_meals:
  "get_meals d userId = Responded 200 (Meals (where_user d userId))
   \<and> where_user d userId = filter (\<lambda>m. m_user_id m = userId) (meals d)
   \<and> (m \<in> set (where_user d userId) \<longleftrightarrow> m \<in> set (meals d) \<and> m_user_id m = userId)
   \<and> count_list (where_user d userId) m
       = (if m_user_id m = userId then count_list (meals d) m else 0)
   \<and> subseq (where_user d userId) (meals d)
   \<and> (ids_increasing d \<longrightarrow> sorted_wrt (<) (map m_id (where_user d userId)))
   \<and> get_metrics d userId = Responded 200 (Metrics (compute_metrics (where_user d userId)))"
proof -
  have cnt: "count_list (filter P xs) m = (if P m then count_list xs m else 0)" for P xs
    by (induction xs) auto
  have srt: "ids_increasing d \<longrightarrow> sorted_wrt (<) (map m_id (where_user d userId))"
    by (simp add: ids_increasing_def where_user_def sorted_wrt_map sorted_wrt_filter)
  have mem: "m \<in> set (where_user d userId) \<longleftrightarrow> m \<in> set (meals d) \<and> m_user_id m = userId"
    by (auto simp: where_user_def)
  have sub: "subseq (where_user d userId) (meals d)"
    by (simp add: where_user_def)
  show ?thesis
    using srt mem sub cnt [of "\<lambda>m. m_user_id m = userId" "meals d"]
    by (simp add: get_meals_def get_metrics_def where_user_def)
qed

theorem C2_get_meals_witness:
  "ids_increasing two_owners
   \<and> get_meals two_owners 1 = Responded 200 (Meals (where_user two_owners 1))
   \<and> sorted_wrt (<) (map m_id (where_user two_owners 1))
   \<and> map m_id (where_user two_owners 1) = [1, 3]
   \<and> map m_id (meals two_owners) = [1, 2, 3]"
proof -
  have inc: "ids_increasing two_owners"
    by (simp add: ids_increasing_def two_owners_def)
  have ev: "map m_id (where_user two_owners 1) = [1, 3] \<and> map m_id (meals two_owners) = [1, 2, 3]"
    by (simp add: where_user_def two_owners_def)
  have "get_meals two_owners 1 = Responded 200 (Meals (where_user two_owners 1))
      \<and> sorted_wrt (<) (map m_id (where_user two_owners 1))"
    using C2_get_meals [of two_owners 1 "meals two_owners ! 0"] inc by blast
  then show ?thesis
    using inc ev by blast
qed

section \<open>Updating and deleting\<close>

lemma map_filter_Nil: "List.map_filter f [] = []"
  by (simp add: List.map_filter_def)

lemma update_meals_no_match:
  assumes "\<forall>m\<in>set (meals d). \<not> P m"
  shows "update_meals num d P b = (if nothing_to_set b then Inl KnexEmptyUpdate else Inr d)"
proof -
  have none: "filter P (meals d) = []"
    using assms by (simp add: filter_empty_conv)
  have same: "map (\<lambda>m. if P m then update_row num b m else m) (meals d) = meals d"
    using assms by (simp add: map_idI)
  show ?thesis
    by (simp add: update_meals_def none same map_filter_Nil)
qed

lemma put_meal_no_match:
  assumes "\<forall>m\<in>set (meals d). \<not> owned userId mealId m"
  shows "put_meal num d userId mealId b =
    (if nothing_to_set b then (Threw KnexEmptyUpdate, d)
     else (Responded 200 (Message ''Meal updated''), d))"
  by (simp add: put_meal_def update_meals_no_match [OF assms])

lemma delete_meal_no_match:
  assumes "\<forall>m\<in>set (meals d). \<not> owned userId mealId m"
  shows "delete_meal d userId mealId = (Responded 200 (Message ''Meal deleted''), d)"
proof -
  have "filter (\<lambda>m. \<not> owned userId mealId m) (meals d) = meals d"
    using assms by (simp add: filter_id_conv)
  then show ?thesis by (simp add: delete_meal_def del_meals_def)
qed

lemma update_meals_foreign:
  assumes "update_meals num d (owned userId mealId) b = Inr d'"
  shows "filter (\<lambda>m. m_user_id m \<noteq> userId) (meals d')
       = filter (\<lambda>m. m_user_id m \<noteq> userId) (meals d)"
proof -
  have m: "meals d' = map (\<lambda>m. if owned userId mealId m then update_row num b m else m) (meals d)"
    using assms by (auto simp: update_meals_def split: if_splits list.splits)
  have "filter (\<lambda>m. m_user_id m \<noteq> userId)
          (map (\<lambda>m. if owned userId mealId m then update_row num b m else m) ms)
        = filter (\<lambda>m. m_user_id m \<noteq> userId) ms" for ms
    by (induction ms) (auto simp: owned_def update_row_keeps)
  with m show ?thesis by simp
qed

lemma put_meal_foreign:
  "filter (\<lambda>m. m_user_id m \<noteq> userId) (meals (snd (put_meal num d userId mealId b)))
   = filter (\<lambda>m. m_user_id m \<noteq> userId) (meals d)"
proof (cases "update_meals num d (owned userId mealId) b")
  case (Inl e)
  then show ?thesis by (simp add: put_meal_def)
next
  case (Inr d')
  then show ?thesis using update_meals_foreign [OF Inr] by (simp add: put_meal_def)
qed

lemma delete_meal_foreign:
  "filter (\<lambda>m. m_user_id m \<noteq> userId) (meals (snd (delete_meal d userId mealId)))
   = filter (\<lambda>m. m_user_id m \<noteq> userId) (meals d)"
proof -
  have "filter (\<lambda>m. m_user_id m \<noteq> userId) (filter (\<lambda>m. \<not> owned userId mealId m) ms)
      = filter (\<lambda>m. m_user_id m \<noteq> userId) ms" for ms
    by (induction ms) (auto simp: owned_def)
  then show ?thesis by (simp add: delete_meal_def del_meals_def)
qed

text \<open>
  C10. An update or a delete whose meal id names no meal of the requester (the id is
  absent, or every meal with that id belongs to someone else) leaves the whole store as
  it was; and whatever the id, the rows of the other identities are the same rows, in the
  same order, after the call.
\<close>

theorem C10_frame:
  "((\<forall>m\<in>set (meals d). m_id m = mealId \<longrightarrow> m_user_id m \<noteq> userId)
      \<longrightarrow> snd (put_meal num d userId mealId b) = d \<and> snd (delete_meal d userId mealId) = d)
   \<and> filter (\<lambda>m. m_user_id m \<noteq> userId) (meals (snd (put_meal num d userId mealId b)))
       = filter (\<lambda>m. m_user_id m \<noteq> userId) (meals d)
   \<and> filter (\<lambda>m. m_user_id m \<noteq> userId) (meals (snd (delete_meal d userId mealId)))
       = filter (\<lambda>m. m_user_id m \<noteq> userId) (meals d)"
proof -
  have "snd (put_meal num d userId mealId b) = d \<and> snd (delete_meal d userId mealId) = d"
    if h: "\<forall>m\<in>set (meals d). m_id m = mealId \<longrightarrow> m_user_id m \<noteq> userId"
  proof -
    from h have no: "\<forall>m\<in>set (meals d). \<not> owned userId mealId m"
      by (simp add: owned_def)
    show ?thesis
      by (simp add: put_meal_no_match [OF no] delete_meal_no_match [OF no])
  qed
  then show ?thesis
    using put_meal_foreign [of userId num d mealId b] delete_meal_foreign [of userId d mealId]
    by blast
qed

theorem C10_frame_witness:
  "(\<forall>num. snd (put_meal num two_owners 1 2 salad) = two_owners)
   \<and> snd (delete_meal two_owners 1 2) = two_owners
   \<and> (\<forall>num. snd (put_meal num two_owners 1 7 salad) = two_owners)
   \<and> snd (delete_meal two_owners 1 7) = two_owners
   \<and> map m_user_id (meals two_owners) = [1, 2, 1]"
proof -
  have ev: "map m_id (meals two_owners) = [1, 2, 3] \<and> map m_user_id (meals two_owners) = [1, 2, 1]"
    by (simp add: two_owners_def)
  have foreign: "\<forall>m\<in>set (meals two_owners). m_id m = 2 \<longrightarrow> m_user_id m \<noteq> 1"
    by (simp add: two_owners_def)
  have absent: "\<forall>m\<in>set (meals two_owners). m_id m = 7 \<longrightarrow> m_user_id m \<noteq> 1"
    by (simp add: two_owners_def)
  have "snd (put_meal num two_owners 1 2 salad) = two_owners
      \<and> snd (delete_meal two_owners 1 2) = two_owners
      \<and> snd (put_meal num two_owners 1 7 salad) = two_owners
      \<and> snd (delete_meal two_owners 1 7) = two_owners" for num
    using C10_frame [where d = two_owners and mealId = 2 and userId = 1 and num = num and b = salad]
      C10_frame [where d = two_owners and mealId = 7 and userId = 1 and num = num and b = salad]
      foreign absent
    by blast
  then show ?thesis using ev by blast
qed

text \<open>
  C4. The claim is that PUT /meals/:id fails with NotFound for an id that is absent or
  foreign. The handler does not look at the number of rows the update matched: it never
  answers 404, and at the store \<open>two_owners\<close> it answers 200 "Meal updated" to identity 1
  both for the absent id 7 and for meal 2, which belongs to identity 2.
\<close>

theorem C4_put_meal_reports_success:
  "status_of (fst (put_meal num d userId mealId b)) \<noteq> Some 404
   \<and> fst (put_meal num two_owners 1 7 salad) = Responded 200 (Message ''Meal updated'')
   \<and> fst (put_meal num two_owners 1 2 salad) = Responded 200 (Message ''Meal updated'')
   \<and> get_meal two_owners 1 7 = Responded 404 (Error ''Meal not found'')
   \<and> get_meal two_owners 1 2 = Responded 404 (Error ''Meal not found'')"
proof -
  have never: "status_of (fst (put_meal num d userId mealId b)) \<noteq> Some 404"
    by (cases "update_meals num d (owned userId mealId) b") (simp_all add: put_meal_def)
  have ev: "fst (put_meal num two_owners 1 7 salad) = Responded 200 (Message ''Meal updated'')
   \<and> fst (put_meal num two_owners 1 2 salad) = Responded 200 (Message ''Meal updated'')
   \<and> get_meal two_owners 1 7 = Responded 404 (Error ''Meal not found'')
   \<and> get_meal two_owners 1 2 = Responded 404 (Error ''Meal not found'')"
    by (simp add: put_meal_def update_meals_def nothing_to_set_def owned_def
        List.map_filter_def get_meal_def where_id_user_def
        two_owners_def salad_def)
  show ?thesis using never ev by blast
qed

text \<open>
  C5. The claim is that DELETE /meals/:id fails with NotFound for an id that is absent or
  foreign, and so on the second delete of a meal. The handler answers 200 "Meal deleted"
  whatever the delete matched: for the absent id 7, for the foreign meal 2, and for the
  second delete of the requester's own meal 1.
\<close>

theorem C5_delete_meal_reports_success:
  "fst (delete_meal d userId mealId) = Responded 200 (Message ''Meal deleted'')
   \<and> fst (delete_meal two_owners 1 7) = Responded 200 (Message ''Meal deleted'')
   \<and> fst (delete_meal two_owners 1 2) = Responded 200 (Message ''Meal deleted'')
   \<and> map m_id (meals (snd (delete_meal two_owners 1 1))) = [2, 3]
   \<and> delete_meal (snd (delete_meal two_owners 1 1)) 1 1
       = (Responded 200 (Message ''Meal deleted''), snd (delete_meal two_owners 1 1))"
  by (simp add: delete_meal_def del_meals_def owned_def
        two_owners_def)

section \<open>Creating a meal\<close>






section \<open>Registration\<close>








section \<open>Login\<close>









section \<open>Session tokens\<close>

lemma authenticate_issued:
  assumes "secret \<noteq> []" "jwt_sign userId secret t = Inr token"
  shows "authenticate secret t' [scheme, Compact token] =
    (if t' div 1000 < t div 1000 + 86400 then Inr userId
     else Inl (Responded 401 (Error ''Invalid token'')))"
proof -
  have tok: "token = \<lparr>jwt_id = userId, jwt_iat = t div 1000,
      jwt_exp = Some (t div 1000 + 86400), jwt_key = secret\<rparr>"
    using assms by (simp add: jwt_sign_def)
  show ?thesis
    using assms(1) by (simp add: tok authenticate_def second_piece_def jwt_verify_def)
qed

lemma day_passed: "(t::nat) + 86400000 \<le> t' \<Longrightarrow> t div 1000 + 86400 \<le> t' div 1000"
proof -
  assume "t + 86400000 \<le> t'"
  then have "(t + 86400000) div 1000 \<le> t' div 1000"
    by (rule div_le_mono)
  moreover have "(t + 86400000) div 1000 = t div 1000 + 86400"
    by simp
  ultimately show ?thesis by simp
qed

text \<open>
  C6. With a signing secret configured, the token that \<^verbatim>\<open>jwt.sign\<close> issues for an identity
  at time \<open>t\<close> (in milliseconds) carries the expiry second \<open>t div 1000 + 86400\<close>; presented
  to \<^verbatim>\<open>authenticate\<close> at the time of issue it yields that identity, as it does at every
  time before the expiry second; from the expiry second on, and so at every time 24 hours
  or more after issue, it is answered 401 "Invalid token".
\<close>

theorem C6_token_lifetime:
  "secret \<noteq> [] \<longrightarrow>
     (\<exists>token. jwt_sign userId secret t = Inr token
        \<and> jwt_exp token = Some (t div 1000 + 86400)
        \<and> authenticate secret t [scheme, Compact token] = Inr userId
        \<and> (\<forall>t'. t' div 1000 < t div 1000 + 86400
              \<longrightarrow> authenticate secret t' [scheme, Compact token] = Inr userId)
        \<and> (\<forall>t'. t div 1000 + 86400 \<le> t' div 1000
              \<longrightarrow> authenticate secret t' [scheme, Compact token]
                  = Inl (Responded 401 (Error ''Invalid token'')))
        \<and> (\<forall>t'. t + 86400000 \<le> t'
              \<longrightarrow> authenticate secret t' [scheme, Compact token]
                  = Inl (Responded 401 (Error ''Invalid token''))))"
proof
  assume s: "secret \<noteq> []"
  define token where "token = \<lparr>jwt_id = userId, jwt_iat = t div 1000,
      jwt_exp = Some (t div 1000 + 86400), jwt_key = secret\<rparr>"
  have sign: "jwt_sign userId secret t = Inr token"
    using s by (simp add: jwt_sign_def token_def)
  have auth: "authenticate secret t' [scheme, Compact token] =
    (if t' div 1000 < t div 1000 + 86400 then Inr userId
     else Inl (Responded 401 (Error ''Invalid token'')))" for t'
    by (rule authenticate_issued [OF s sign])
  have exp: "jwt_exp token = Some (t div 1000 + 86400)"
    by (simp add: token_def)
  have now: "authenticate secret t [scheme, Compact token] = Inr userId"
    by (simp add: auth)
  have before: "\<forall>t'. t' div 1000 < t div 1000 + 86400
              \<longrightarrow> authenticate secret t' [scheme, Compact token] = Inr userId"
    by (simp add: auth)
  have after: "\<forall>t'. t div 1000 + 86400 \<le> t' div 1000
              \<longrightarrow> authenticate secret t' [scheme, Compact token]
                  = Inl (Responded 401 (Error ''Invalid token''))"
    by (simp add: auth)
  have day: "\<forall>t'. t + 86400000 \<le> t'
              \<longrightarrow> authenticate secret t' [scheme, Compact token]
                  = Inl (Responded 401 (Error ''Invalid token''))"
    using after day_passed by blast
  show "\<exists>token. jwt_sign userId secret t = Inr token
        \<and> jwt_exp token = Some (t div 1000 + 86400)
        \<and> authenticate secret t [scheme, Compact token] = Inr userId
        \<and> (\<forall>t'. t' div 1000 < t div 1000 + 86400
              \<longrightarrow> authenticate secret t' [scheme, Compact token] = Inr userId)
        \<and> (\<forall>t'. t div 1000 + 86400 \<le> t' div 1000
              \<longrightarrow> authenticate secret t' [scheme, Compact token]
                  = Inl (Responded 401 (Error ''Invalid token'')))
        \<and> (\<forall>t'. t + 86400000 \<le> t'
              \<longrightarrow> authenticate secret t' [scheme, Compact token]
                  = Inl (Responded 401 (Error ''Invalid token'')))"
    using sign exp now before after day by blast
qed

text \<open>
  C6 for the token of identity 1 issued at 5000 ms under the secret "key": accepted at
  once and one millisecond before the expiry second, refused from 86405000 ms on.
\<close>

theorem C6_token_lifetime_witness:
  "jwt_sign 1 ''key'' 5000 = Inr sample_token
   \<and> authenticate ''key'' 5000 [Opaque ''Bearer'', Compact sample_token] = Inr 1
   \<and> authenticate ''key'' 86404999 [Opaque ''Bearer'', Compact sample_token] = Inr 1
   \<and> authenticate ''key'' 86405000 [Opaque ''Bearer'', Compact sample_token]
       = Inl (Responded 401 (Error ''Invalid token''))"
proof -
  have k: "''key'' \<noteq> []" by simp
  have s: "jwt_sign 1 ''key'' 5000 = Inr sample_token"
    by (simp add: jwt_sign_def sample_token_def)
  obtain token where tok: "jwt_sign 1 ''key'' 5000 = Inr token"
    and now: "authenticate ''key'' 5000 [Opaque ''Bearer'', Compact token] = Inr 1"
    and before: "\<forall>t'. t' div 1000 < 5000 div 1000 + 86400
       \<longrightarrow> authenticate ''key'' t' [Opaque ''Bearer'', Compact token] = Inr 1"
    and day: "\<forall>t'. 5000 + 86400000 \<le> t'
       \<longrightarrow> authenticate ''key'' t' [Opaque ''Bearer'', Compact token]
           = Inl (Responded 401 (Error ''Invalid token''))"
    using C6_token_lifetime [of "''key''" 1 5000 "Opaque ''Bearer''"] k by blast
  have same: "token = sample_token" using tok s by simp
  have b: "authenticate ''key'' 86404999 [Opaque ''Bearer'', Compact token] = Inr 1"
    using before by simp
  have d: "authenticate ''key'' 86405000 [Opaque ''Bearer'', Compact token]
       = Inl (Responded 401 (Error ''Invalid token''))"
    using day by simp
  show ?thesis using s now b d same by simp
qed

end
